theory Spec2Isabelle
  imports Main
begin

section \<open>JavaScript values used by the page objects\<close>

text \<open>
  A JavaScript string is a sequence of UTF-16 code units; a code unit is modelled as a
  natural number.  \<open>js_str\<close> embeds an ASCII literal.  A value that may be \<open>null\<close> is
  an \<open>option\<close>, with \<open>None\<close> for \<open>null\<close>.
\<close>

type_synonym js_string = "nat list"

definition js_str :: "string \<Rightarrow> js_string" where
  "js_str s = map of_char s"

text \<open>
  The result of \<open>parseInt\<close> is a Number: either \<open>NaN\<close> or an integer value.  \<open>Num n\<close>
  carries the mathematical integer that \<open>parseInt\<close> computes before it is rounded to a
  double; the sign of zero is not recorded.  Neither matters for telling \<open>NaN\<close> from a
  number.
\<close>

datatype js_number = NaN | Num int

text \<open>
  An exception thrown by the driver, by Node's \<open>fs\<close> module, by \<open>JSON.parse\<close> or by an
  \<open>expect\<close> assertion.  A computation that may throw returns \<open>thrown + 'a\<close>, with
  \<open>Inl\<close> for the exception.
\<close>

datatype thrown = TimeoutError | TargetClosedError | ENOENT | SyntaxError
  | AssertionError | DriverError string

subsection \<open>The built-in \<open>parseInt(string, radix)\<close>\<close>

text \<open>\<open>ToString\<close> on a value that is a string or \<open>null\<close>.\<close>

definition ToString :: "js_string option \<Rightarrow> js_string" where
  "ToString v = (case v of None \<Rightarrow> js_str ''null'' | Some s \<Rightarrow> s)"

text \<open>The code units of \<open>WhiteSpace\<close> and \<open>LineTerminator\<close>.\<close>

definition isWhiteSpace :: "nat \<Rightarrow> bool" where
  "isWhiteSpace c \<longleftrightarrow>
     c \<in> {9, 10, 11, 12, 13, 32, 160, 5760, 8232, 8233, 8239, 8287, 12288, 65279}
     \<or> (8192 \<le> c \<and> c \<le> 8202)"

definition trimStart :: "js_string \<Rightarrow> js_string" where
  "trimStart s = dropWhile isWhiteSpace s"

text \<open>The value of a code unit as a digit: \<open>0-9\<close>, then \<open>a-z\<close> or \<open>A-Z\<close> for 10 to 35.\<close>

definition digitVal :: "nat \<Rightarrow> nat option" where
  "digitVal c =
     (if 48 \<le> c \<and> c \<le> 57 then Some (c - 48)
      else if 97 \<le> c \<and> c \<le> 122 then Some (c - 87)
      else if 65 \<le> c \<and> c \<le> 90 then Some (c - 55)
      else None)"

definition isRadixDigit :: "nat \<Rightarrow> nat \<Rightarrow> bool" where
  "isRadixDigit R c = (case digitVal c of None \<Rightarrow> False | Some d \<Rightarrow> d < R)"

definition mathInt :: "nat \<Rightarrow> js_string \<Rightarrow> int" where
  "mathInt R z = int (foldl (\<lambda>acc c. acc * R + the (digitVal c)) 0 z)"

text \<open>
  The steps of \<open>parseInt\<close> in the order of the language definition: trim leading white
  space, read the sign, settle the radix (an integer here; \<open>0\<close> means 10 with an
  optional \<open>0x\<close> prefix), take the longest prefix of digits, and return \<open>NaN\<close> when that
  prefix is empty.
\<close>

definition stripSign :: "js_string \<Rightarrow> js_string" where
  "stripSign s = (case s of [] \<Rightarrow> [] | c # cs \<Rightarrow> if c = 43 \<or> c = 45 then cs else s)"

definition signOf :: "js_string \<Rightarrow> int" where
  "signOf s = (case s of [] \<Rightarrow> 1 | c # cs \<Rightarrow> if c = 45 then - 1 else 1)"

definition hasHexPrefix :: "js_string \<Rightarrow> bool" where
  "hasHexPrefix s =
     (case s of c # d # _ \<Rightarrow> c = 48 \<and> (d = 120 \<or> d = 88) | _ \<Rightarrow> False)"

definition parseDigits :: "int \<Rightarrow> nat \<Rightarrow> js_string \<Rightarrow> js_number" where
  "parseDigits sign R s =
     (let z = takeWhile (isRadixDigit R) s
      in if z = [] then NaN else Num (sign * mathInt R z))"

definition parseInt :: "js_string option \<Rightarrow> int \<Rightarrow> js_number" where
  "parseInt string radix =
     (let s0 = trimStart (ToString string);
          sign = signOf s0;
          s = stripSign s0
      in if radix \<noteq> 0 \<and> (radix < 2 \<or> 36 < radix) then NaN
         else if (radix = 0 \<or> radix = 16) \<and> hasHexPrefix s
           then parseDigits sign 16 (drop 2 s)
         else parseDigits sign (if radix = 0 then 10 else nat radix) s)"

section \<open>Session state, the driver's page and the file system\<close>

text \<open>
  The storage state that \<open>context.storageState()\<close> captures: the cookies and the local
  storage of each origin.  The tests read \<open>authData.cookies\<close> and each cookie's \<open>name\<close>.
\<close>

record cookie =
  cookie_name :: string
  cookie_value :: string
  cookie_domain :: string
  cookie_path :: string
  cookie_expires :: int
  cookie_httpOnly :: bool
  cookie_secure :: bool
  cookie_sameSite :: string

record origin_state =
  origin :: string
  localStorage :: "(string \<times> string) list"

record storage_state =
  cookies :: "cookie list"
  origins :: "origin_state list"

text \<open>A browser context of the driver: whether it has been closed, and the state it holds.\<close>

record browser_context =
  closed :: bool
  state :: storage_state

text \<open>
  The driver's page, as far as the page objects use it: \<open>textContent\<close> answers a selector
  with the element's text, with \<open>null\<close>, or throws (no element within the timeout);
  \<open>page_context\<close> is the page's browser context.
\<close>

record page =
  textContent :: "string \<Rightarrow> thrown + js_string option"
  page_context :: browser_context

text \<open>
  The file system and the machine: the directories, the files with the time of their last
  write, the clock, and the number of running browser processes.  The text of a file is
  of an arbitrary type \<open>'c\<close>; the driver's serialiser and \<open>JSON.parse\<close> are parameters
  \<open>stringify\<close> and \<open>parse\<close> of the functions that write and read a state.
\<close>

record 'c fs_file =
  content :: 'c
  mtime :: int

record 'c world =
  dirs :: "string set"
  files :: "string \<rightharpoonup> 'c fs_file"
  now :: int
  browsers :: nat

definition existsSync :: "'c world \<Rightarrow> string \<Rightarrow> bool" where
  "existsSync w p \<longleftrightarrow> p \<in> dirs w \<or> files w p \<noteq> None"

definition mkdirSync :: "'c world \<Rightarrow> string \<Rightarrow> 'c world" where
  "mkdirSync w p = w\<lparr>dirs := insert p (dirs w)\<rparr>"

definition writeFile :: "'c world \<Rightarrow> string \<Rightarrow> 'c \<Rightarrow> 'c world" where
  "writeFile w p txt = w\<lparr>files := (files w)(p \<mapsto> \<lparr>content = txt, mtime = now w\<rparr>)\<rparr>"

text \<open>\<open>fs.readFileSync(p, 'utf-8')\<close>: throws \<open>ENOENT\<close> when there is no file at \<open>p\<close>.\<close>

definition readFileSync :: "'c world \<Rightarrow> string \<Rightarrow> thrown + 'c" where
  "readFileSync w p = (case files w p of None \<Rightarrow> Inl ENOENT | Some f \<Rightarrow> Inr (content f))"

text \<open>
  The driver's \<open>context.storageState({ path })\<close>: it throws on a closed context, and
  otherwise writes the serialised state to the path and returns the state.  The callers
  create the directory of the path beforehand; faults of the disk are not modelled.
\<close>

definition storageState ::
  "(storage_state \<Rightarrow> 'c) \<Rightarrow> browser_context \<Rightarrow> string \<Rightarrow> 'c world
     \<Rightarrow> (thrown + storage_state) \<times> 'c world" where
  "storageState stringify c p w =
     (if closed c then (Inl TargetClosedError, w)
      else (Inr (state c), writeFile w p (stringify (state c))))"

section \<open>BasePage, LoginPage and ProductsPage\<close>

definition getText :: "page \<Rightarrow> string \<Rightarrow> thrown + js_string option" where
  "getText pg selector = textContent pg selector"

text \<open>\<open>BasePage.saveStorageState(filepath)\<close>.\<close>

definition saveStorageState ::
  "(storage_state \<Rightarrow> 'c) \<Rightarrow> page \<Rightarrow> string \<Rightarrow> 'c world \<Rightarrow> (thrown + unit) \<times> 'c world" where
  "saveStorageState stringify pg filepath w =
     (case storageState stringify (page_context pg) filepath w of
        (Inl e, w') \<Rightarrow> (Inl e, w')
      | (Inr _, w') \<Rightarrow> (Inr (), w'))"

text \<open>
  The driver calls of \<open>LoginPage.login\<close>: each takes the page and returns it as the call
  left it, or throws.
\<close>

record driver_ops =
  fill :: "page \<Rightarrow> string \<Rightarrow> string \<Rightarrow> thrown + page"
  click :: "page \<Rightarrow> string \<Rightarrow> thrown + page"
  waitForSelector :: "page \<Rightarrow> string \<Rightarrow> nat \<Rightarrow> thrown + page"

definition usernameInput :: string where
  \<open>usernameInput = ''[data-test="username"]''\<close>

definition passwordInput :: string where
  \<open>passwordInput = ''[data-test="password"]''\<close>

definition loginButton :: string where
  \<open>loginButton = ''[data-test="login-button"]''\<close>

definition productsTitle :: string where
  "productsTitle = ''.title''"

definition fillText :: "driver_ops \<Rightarrow> page \<Rightarrow> string \<Rightarrow> string \<Rightarrow> thrown + page" where
  "fillText d pg selector txt = fill d pg selector txt"

text \<open>\<open>BasePage.click\<close>, named \<open>click_sel\<close> beside the driver's \<open>click\<close>.\<close>

definition click_sel :: "driver_ops \<Rightarrow> page \<Rightarrow> string \<Rightarrow> thrown + page" where
  "click_sel d pg selector = click d pg selector"

definition waitForElement :: "driver_ops \<Rightarrow> page \<Rightarrow> string \<Rightarrow> nat \<Rightarrow> thrown + page" where
  "waitForElement d pg selector timeout = waitForSelector d pg selector timeout"

definition login :: "driver_ops \<Rightarrow> page \<Rightarrow> string \<Rightarrow> string \<Rightarrow> thrown + page" where
  "login d pg username password =
     (case fillText d pg usernameInput username of
        Inl e \<Rightarrow> Inl e
      | Inr pg1 \<Rightarrow>
          (case fillText d pg1 passwordInput password of
             Inl e \<Rightarrow> Inl e
           | Inr pg2 \<Rightarrow>
               (case click_sel d pg2 loginButton of
                  Inl e \<Rightarrow> Inl e
                | Inr pg3 \<Rightarrow> waitForElement d pg3 productsTitle 10000)))"

definition loginAndSaveState ::
  "(storage_state \<Rightarrow> 'c) \<Rightarrow> driver_ops \<Rightarrow> page \<Rightarrow> string \<Rightarrow> string \<Rightarrow> string \<Rightarrow> 'c world
     \<Rightarrow> (thrown + unit) \<times> 'c world" where
  "loginAndSaveState stringify d pg username password statePath w =
     (case login d pg username password of
        Inl e \<Rightarrow> (Inl e, w)
      | Inr pg' \<Rightarrow> saveStorageState stringify pg' statePath w)"

definition cartBadge :: string where
  "cartBadge = ''.shopping_cart_badge''"

definition getCartItemCount :: "page \<Rightarrow> thrown + js_number" where
  "getCartItemCount pg =
     (case getText pg cartBadge of
        Inl e \<Rightarrow> Inl e
      | Inr badgeText \<Rightarrow> Inr (parseInt badgeText 10))"

text \<open>
  A page whose cart badge has the given text content (every selector answers it), in an
  open context without cookies.
\<close>

definition page_with_badge :: "js_string option \<Rightarrow> page" where
  "page_with_badge t =
     \<lparr> textContent = (\<lambda>selector. Inr t),
       page_context = \<lparr> closed = False, state = \<lparr> cookies = [], origins = [] \<rparr> \<rparr> \<rparr>"

definition beginsWithDigit :: "js_string \<Rightarrow> bool" where
  "beginsWithDigit s = (case s of [] \<Rightarrow> False | c # _ \<Rightarrow> 48 \<le> c \<and> c \<le> 57)"

section \<open>The authentication tests and the global setup\<close>

definition authDir :: string where
  "authDir = ''auth''"

definition authFile :: string where
  "authFile = ''auth/auth.json''"

text \<open>
  The tests load the saved state with \<open>JSON.parse(fs.readFileSync(authFile, 'utf-8'))\<close>;
  either call may throw.
\<close>

definition readAuthData ::
  "('c \<Rightarrow> thrown + storage_state) \<Rightarrow> 'c world \<Rightarrow> string \<Rightarrow> thrown + storage_state" where
  "readAuthData parse w p =
     (case readFileSync w p of Inl e \<Rightarrow> Inl e | Inr txt \<Rightarrow> parse txt)"

text \<open>
  Test \<open>02 - Reuse saved authentication state in new page\<close>: load the state, expect a
  cookie, list the cookie names, expect a name.
\<close>

definition test_02 :: "('c \<Rightarrow> thrown + storage_state) \<Rightarrow> 'c world \<Rightarrow> thrown + unit" where
  "test_02 parse w =
     (case readAuthData parse w authFile of
        Inl e \<Rightarrow> Inl e
      | Inr authData \<Rightarrow>
          if \<not> 0 < length (cookies authData) then Inl AssertionError
          else let cookieNames = map cookie_name (cookies authData)
               in if \<not> 0 < length cookieNames then Inl AssertionError else Inr ())"

text \<open>
  What the driver does during \<open>globalSetup\<close>: for each call, the exception it throws if
  any, and the state the context holds once the login has gone through.
\<close>

record setup_run =
  on_launch :: "thrown option"
  on_createContext :: "thrown option"
  on_newPage :: "thrown option"
  on_goto :: "thrown option"
  on_fill_username :: "thrown option"
  on_fill_password :: "thrown option"
  on_click_login :: "thrown option"
  on_waitForSelector :: "thrown option"
  on_close :: "thrown option"
  logged_in :: browser_context

text \<open>The first exception of a sequence of awaited calls.\<close>

fun first_thrown :: "thrown option list \<Rightarrow> thrown option" where
  "first_thrown [] = None"
| "first_thrown (None # rest) = first_thrown rest"
| "first_thrown (Some e # rest) = Some e"

text \<open>
  The body of the \<open>try\<close> block: navigate, fill in the credentials, click, wait for the
  inventory, save the state.  The \<open>catch\<close> block logs and rethrows.
\<close>

definition try_block ::
  "(storage_state \<Rightarrow> 'c) \<Rightarrow> setup_run \<Rightarrow> 'c world \<Rightarrow> (thrown + unit) \<times> 'c world" where
  "try_block stringify r w =
     (case first_thrown [on_goto r, on_fill_username r, on_fill_password r,
                         on_click_login r, on_waitForSelector r] of
        Some e \<Rightarrow> (Inl e, w)
      | None \<Rightarrow>
          (case storageState stringify (logged_in r) authFile w of
             (Inl e, w') \<Rightarrow> (Inl e, w')
           | (Inr _, w') \<Rightarrow> (Inr (), w')))"

text \<open>\<open>browser.close()\<close> in the \<open>finally\<close> block; an exception thrown here replaces the result.\<close>

definition finally_close ::
  "setup_run \<Rightarrow> (thrown + unit) \<times> 'c world \<Rightarrow> (thrown + unit) \<times> 'c world" where
  "finally_close r res =
     (case on_close r of
        Some e \<Rightarrow> (Inl e, snd res)
      | None \<Rightarrow> (fst res, (snd res)\<lparr>browsers := browsers (snd res) - 1\<rparr>))"

definition globalSetup ::
  "(storage_state \<Rightarrow> 'c) \<Rightarrow> setup_run \<Rightarrow> 'c world \<Rightarrow> (thrown + unit) \<times> 'c world" where
  "globalSetup stringify r w =
     (let w1 = (if \<not> existsSync w authDir then mkdirSync w authDir else w)
      in if existsSync w1 authFile then (Inr (), w1)
         else
           (case on_launch r of
              Some e \<Rightarrow> (Inl e, w1)
            | None \<Rightarrow>
                (let w2 = w1\<lparr>browsers := browsers w1 + 1\<rparr>
                 in case on_createContext r of
                      Some e \<Rightarrow> (Inl e, w2)
                    | None \<Rightarrow>
                        (case on_newPage r of
                           Some e \<Rightarrow> (Inl e, w2)
                         | None \<Rightarrow> finally_close r (try_block stringify r w2)))))"

section \<open>InternetPage: waiting for the new page\<close>

text \<open>
  The part of a browser context that \<open>clickNewWindowLink\<close> touches: the events for which
  a waiter is registered, and the driver calls in the order in which they were issued.
\<close>

datatype driver_call = WaitForEvent string | LocatorClick string

record tab_context =
  waiters :: "string list"
  issued :: "driver_call list"

text \<open>
  \<open>context.waitForEvent(event)\<close> registers a waiter when it is called and returns a
  promise; the promise is settled later, by the first matching event.
\<close>

definition waitForEvent :: "string \<Rightarrow> tab_context \<Rightarrow> tab_context" where
  "waitForEvent event c =
     c\<lparr>waiters := waiters c @ [event], issued := issued c @ [WaitForEvent event]\<rparr>"

text \<open>
  What a click does in the browser: the exception it throws if any, and the pages it
  opens, each announced to the context by a \<open>page\<close> event.
\<close>

record 'p click_effect =
  click_throws :: "thrown option"
  opened :: "'p list"

text \<open>
  \<open>locator(selector).first().click()\<close>.  A \<open>page\<close> event reaches only a waiter that is
  registered when the click is issued: the second component is the page handed to that
  waiter, \<open>None\<close> when there is no waiter or no page.
\<close>

definition locator_first_click ::
  "string \<Rightarrow> 'p click_effect \<Rightarrow> tab_context \<Rightarrow> (thrown + unit) \<times> 'p option \<times> tab_context" where
  "locator_first_click selector eff c =
     (let delivered =
            (if ''page'' \<in> set (waiters c)
             then (case opened eff of [] \<Rightarrow> None | p # _ \<Rightarrow> Some p) else None);
          c' = c\<lparr>issued := issued c @ [LocatorClick selector],
                 waiters := (if delivered = None then waiters c
                             else remove1 ''page'' (waiters c))\<rparr>
      in ((case click_throws eff of Some e \<Rightarrow> Inl e | None \<Rightarrow> Inr ()), delivered, c'))"

definition newWindowLink :: string where
  \<open>newWindowLink = ''a[target="_blank"]''\<close>

text \<open>
  \<open>InternetPage.clickNewWindowLink\<close>: the elements of the array given to \<open>Promise.all\<close>
  are evaluated from left to right, so \<open>waitForEvent\<close> is called before \<open>click\<close>.  The
  awaited result is the click's exception if it threw, the waiter's timeout if no page
  reached it, and the page otherwise.
\<close>

definition clickNewWindowLink ::
  "'p click_effect \<Rightarrow> tab_context \<Rightarrow> (thrown + 'p) \<times> tab_context" where
  "clickNewWindowLink eff c =
     (let c1 = waitForEvent ''page'' c
      in case locator_first_click newWindowLink eff c1 of
           (clicked, delivered, c2) \<Rightarrow>
             ((case clicked of
                 Inl e \<Rightarrow> Inl e
               | Inr _ \<Rightarrow> (case delivered of None \<Rightarrow> Inl TimeoutError | Some p \<Rightarrow> Inr p)),
              c2))"

section \<open>The orchestration layer of the specification\<close>

text \<open>
  The specification describes four components that the repository does not contain:
  \<open>EngineMatrix\<close>, \<open>BrowserContextPool\<close>, \<open>TestRunner\<close> and \<open>SessionStateStore\<close>.  The
  definitions of this section follow the specification's words.
\<close>

text \<open>
  Modelled from the spec: the engine targets and the error taxonomy of the data model,
  which are missing from the source.
\<close>

datatype engine_kind = ChromiumLike | GeckoLike | WebkitLike

record engine_target =
  engineKind :: engine_kind
  viewport :: "nat \<times> nat"
  userAgentOverride :: "string option"

datatype spec_error = LaunchError | SeedError | CaptureError | NotFound | CorruptState
  | RunTimeout | RunFailure

text \<open>
  Modelled from the spec: \<open>EngineMatrix.expand\<close> is missing from the source.  The
  targets are given as the list of their declarations, in declaration order; the result
  pairs the test with each target, in that order.
\<close>

definition expand :: "engine_target list \<Rightarrow> 'id \<Rightarrow> ('id \<times> engine_target) list" where
  "expand targets testId = map (\<lambda>tg. (testId, tg)) targets"

text \<open>
  Modelled from the spec: the state of \<open>BrowserContextPool\<close>, which is missing from the
  source.  The pool knows the running engine processes, the open contexts with the
  engine each lives in, the next fresh context identifier, and its idle policy: whether
  an engine without contexts is kept warm or shut down.
\<close>

record pool =
  engines :: "engine_kind set"
  open_contexts :: "(nat \<times> engine_kind) list"
  next_context :: nat
  keep_warm :: bool

text \<open>
  Modelled from the spec: what the machine does for the pool, namely which engines start
  and which seeds are well formed.
\<close>

record engine_env =
  launches :: "engine_kind \<Rightarrow> bool"
  well_formed :: "storage_state \<Rightarrow> bool"

text \<open>
  Modelled from the spec: \<open>BrowserContextPool.acquire\<close> is missing from the source.  It
  launches or reuses the engine of the target, creates a fresh context and applies the
  seed; it fails with \<open>LaunchError\<close> when the engine does not start and with
  \<open>SeedError\<close> on a malformed seed, and on failure whatever it started is torn down.
\<close>

definition acquire ::
  "engine_env \<Rightarrow> engine_target \<Rightarrow> storage_state option \<Rightarrow> pool \<Rightarrow> (spec_error + nat) \<times> pool" where
  "acquire env tg seed p =
     (let k = engineKind tg
      in if k \<notin> engines p \<and> \<not> launches env k then (Inl LaunchError, p)
         else
           (let c = next_context p;
                p' = p\<lparr>engines := insert k (engines p),
                       open_contexts := open_contexts p @ [(c, k)],
                       next_context := Suc c\<rparr>
            in case seed of
                 None \<Rightarrow> (Inr c, p')
               | Some s \<Rightarrow> if well_formed env s then (Inr c, p') else (Inl SeedError, p)))"

text \<open>
  Modelled from the spec: \<open>BrowserContextPool.release\<close> is missing from the source.  It
  closes the context; an engine left without contexts is shut down unless the pool keeps
  it warm.  On a context that is not open it does nothing, and it has no error result.
\<close>

definition release :: "nat \<Rightarrow> pool \<Rightarrow> pool" where
  "release c p =
     (case map_of (open_contexts p) c of
        None \<Rightarrow> p
      | Some k \<Rightarrow>
          (let rest = filter (\<lambda>(c', k'). c' \<noteq> c) (open_contexts p)
           in p\<lparr>open_contexts := rest,
                engines := (if keep_warm p \<or> k \<in> snd ` set rest then engines p
                            else engines p - {k})\<rparr>))"

text \<open>Modelled from the spec: a context is open from its \<open>acquire\<close> to its \<open>release\<close>.\<close>

definition is_open :: "nat \<Rightarrow> pool \<Rightarrow> bool" where
  "is_open c p \<longleftrightarrow> c \<in> fst ` set (open_contexts p)"

text \<open>
  Modelled from the spec: the data of \<open>TestRunner\<close>, which is missing from the source.
  A result also names its test, and its target is absent for a test that was skipped for
  want of targets.
\<close>

datatype outcome = passed | failed | skipped | timedOut

record 'id run_result =
  test :: 'id
  target :: "engine_target option"
  outcome :: outcome
  durationMs :: nat
  error :: "spec_error option"

text \<open>
  Modelled from the spec: what a test body does on a target.  It returns or throws after
  some milliseconds, it hangs, or the engine process dies under it.
\<close>

datatype body_outcome = Completes nat | Raises nat | Hangs | EngineCrashes nat

record 'id runner_env =
  engine :: engine_env
  body :: "'id \<Rightarrow> engine_target \<Rightarrow> body_outcome"
  seed_of :: "'id \<Rightarrow> storage_state option"
  timeoutMs :: nat

text \<open>
  Modelled from the spec: one unit of work is a run of a test on a target, or a test
  without targets, which is reported as skipped.  The schedule lists the units of the
  tests in order.
\<close>

datatype 'id scheduled = Run 'id engine_target | Skip 'id

definition schedule_test :: "engine_target list \<Rightarrow> 'id \<Rightarrow> 'id scheduled list" where
  "schedule_test targets t =
     (case expand targets t of
        [] \<Rightarrow> [Skip t]
      | runs \<Rightarrow> map (\<lambda>(t', tg). Run t' tg) runs)"

definition schedule :: "engine_target list \<Rightarrow> 'id list \<Rightarrow> 'id scheduled list" where
  "schedule targets tests = concat (map (schedule_test targets) tests)"

text \<open>Modelled from the spec: a dead engine process takes its contexts with it.\<close>

definition crash :: "engine_kind \<Rightarrow> pool \<Rightarrow> pool" where
  "crash k p =
     p\<lparr>engines := engines p - {k},
       open_contexts := filter (\<lambda>(c', k'). k' \<noteq> k) (open_contexts p)\<rparr>"

text \<open>
  Modelled from the spec: the test body under the runner's timeout (step 2 and 3 of the
  algorithm of \<open>TestRunner\<close>, missing from the source).  The result is the outcome, the
  duration, the error, and the pool as the body left it.
\<close>

definition execute ::
  "'id runner_env \<Rightarrow> 'id \<Rightarrow> engine_target \<Rightarrow> pool \<Rightarrow> outcome \<times> nat \<times> spec_error option \<times> pool" where
  "execute env t tg p =
     (case body env t tg of
        Completes d \<Rightarrow>
          if d \<le> timeoutMs env then (passed, d, None, p)
          else (timedOut, timeoutMs env, Some RunTimeout, p)
      | Raises d \<Rightarrow>
          if d \<le> timeoutMs env then (failed, d, Some RunFailure, p)
          else (timedOut, timeoutMs env, Some RunTimeout, p)
      | Hangs \<Rightarrow> (timedOut, timeoutMs env, Some RunTimeout, p)
      | EngineCrashes d \<Rightarrow>
          if d \<le> timeoutMs env then (failed, d, Some RunFailure, crash (engineKind tg) p)
          else (timedOut, timeoutMs env, Some RunTimeout, crash (engineKind tg) p))"

text \<open>
  Modelled from the spec: one run of \<open>TestRunner\<close> (missing from the source): acquire a
  context, execute the body, record the outcome, release the context.  An error of
  \<open>acquire\<close> becomes a \<open>failed\<close> result that carries it.
\<close>

definition run_scheduled ::
  "'id runner_env \<Rightarrow> 'id scheduled \<Rightarrow> pool \<Rightarrow> 'id run_result \<times> pool" where
  "run_scheduled env s p =
     (case s of
        Skip t \<Rightarrow>
          (\<lparr>test = t, target = None, outcome = skipped, durationMs = 0, error = None\<rparr>, p)
      | Run t tg \<Rightarrow>
          (case acquire (engine env) tg (seed_of env t) p of
             (Inl e, p') \<Rightarrow>
               (\<lparr>test = t, target = Some tg, outcome = failed, durationMs = 0,
                 error = Some e\<rparr>, p')
           | (Inr c, p1) \<Rightarrow>
               (case execute env t tg p1 of
                  (oc, d, err, p2) \<Rightarrow>
                    (\<lparr>test = t, target = Some tg, outcome = oc, durationMs = d,
                      error = err\<rparr>, release c p2))))"

text \<open>
  Modelled from the spec: the runs one after the other, the pool handed on and the report
  built up.
\<close>

fun run_all ::
  "'id runner_env \<Rightarrow> 'id scheduled list \<Rightarrow> pool \<Rightarrow> 'id run_result list
     \<Rightarrow> 'id run_result list \<times> pool" where
  "run_all env [] p report = (report, p)"
| "run_all env (s # ss) p report =
     (case run_scheduled env s p of (r, p') \<Rightarrow> run_all env ss p' (report @ [r]))"

text \<open>
  Modelled from the spec: the suite of \<open>TestRunner\<close> (missing from the source).  A
  cancellation is given by the number of units of work that complete before it; the
  report is final when all units are done or the suite is cancelled.
\<close>

definition run_suite ::
  "'id runner_env \<Rightarrow> engine_target list \<Rightarrow> 'id list \<Rightarrow> nat option \<Rightarrow> pool
     \<Rightarrow> 'id run_result list \<times> pool" where
  "run_suite env targets tests cancel p =
     run_all env
       (case cancel of None \<Rightarrow> schedule targets tests | Some n \<Rightarrow> take n (schedule targets tests))
       p []"

text \<open>Modelled from the spec: the unit of work that a result reports.\<close>

definition unit_of :: "'id run_result \<Rightarrow> 'id scheduled" where
  "unit_of r = (case target r of None \<Rightarrow> Skip (test r) | Some tg \<Rightarrow> Run (test r) tg)"

text \<open>
  Modelled from the spec: \<open>isStale\<close> of \<open>SessionStateStore\<close> is missing from the source.
  It compares the stored capture time with the current time.
\<close>

definition isStale :: "'c fs_file \<Rightarrow> int \<Rightarrow> int \<Rightarrow> bool" where
  "isStale f current maxAgeMs \<longleftrightarrow> maxAgeMs < current - mtime f"

text \<open>Modelled from the spec: the test that a unit of work belongs to.\<close>

fun unit_test :: "'id scheduled \<Rightarrow> 'id" where
  "unit_test (Run t tg) = t"
| "unit_test (Skip t) = t"

text \<open>A run of \<open>globalSetup\<close> in which no driver call throws.\<close>

definition succeeds :: "setup_run \<Rightarrow> bool" where
  "succeeds r \<longleftrightarrow>
     on_launch r = None \<and> on_createContext r = None \<and> on_newPage r = None \<and>
     on_goto r = None \<and> on_fill_username r = None \<and> on_fill_password r = None \<and>
     on_click_login r = None \<and> on_waitForSelector r = None \<and> on_close r = None \<and>
     \<not> closed (logged_in r)"

section \<open>Sample inputs\<close>

definition no_cookies :: storage_state where
  "no_cookies = \<lparr>cookies = [], origins = []\<rparr>"

definition session_cookie :: cookie where
  "session_cookie =
     \<lparr>cookie_name = ''session-username'', cookie_value = ''standard_user'',
      cookie_domain = ''www.saucedemo.com'', cookie_path = ''/'',
      cookie_expires = 1700000000, cookie_httpOnly = False, cookie_secure = False,
      cookie_sameSite = ''Lax''\<rparr>"

definition logged_in_state :: storage_state where
  "logged_in_state = \<lparr>cookies = [session_cookie], origins = []\<rparr>"


text \<open>A machine on which nothing was ever saved.\<close>

definition fresh_world :: "storage_state world" where
  "fresh_world = \<lparr>dirs = {}, files = Map.empty, now = 0, browsers = 0\<rparr>"

text \<open>A machine whose auth file was written a thousand days ago.\<close>

definition old_auth_world :: "storage_state world" where
  "old_auth_world =
     \<lparr>dirs = {authDir},
      files = [authFile \<mapsto> \<lparr>content = no_cookies, mtime = 0\<rparr>],
      now = 86400000000, browsers = 0\<rparr>"

definition smooth_run :: setup_run where
  "smooth_run =
     \<lparr>on_launch = None, on_createContext = None, on_newPage = None,
      on_goto = None, on_fill_username = None, on_fill_password = None,
      on_click_login = None, on_waitForSelector = None, on_close = None,
      logged_in = \<lparr>closed = False, state = logged_in_state\<rparr>\<rparr>"

text \<open>The browser starts, and \<open>browser.createContext()\<close> throws.\<close>

definition createContext_throws :: setup_run where
  "createContext_throws =
     smooth_run\<lparr>on_createContext := Some (DriverError ''createContext'')\<rparr>"

definition opens_two :: "string click_effect" where
  "opens_two = \<lparr> click_throws = None, opened = [''New Window'', ''Second''] \<rparr>"

definition idle_context :: tab_context where
  "idle_context = \<lparr> waiters = [], issued = [] \<rparr>"

definition chromium_target :: engine_target where
  "chromium_target =
     \<lparr> engineKind = ChromiumLike, viewport = (1280, 720), userAgentOverride = None \<rparr>"

definition webkit_target :: engine_target where
  "webkit_target =
     \<lparr> engineKind = WebkitLike, viewport = (1280, 720), userAgentOverride = None \<rparr>"

definition empty_pool :: pool where
  "empty_pool = \<lparr> engines = {}, open_contexts = [], next_context = 0, keep_warm = False \<rparr>"

text \<open>A machine on which the WebKit-like engine does not start.\<close>

definition no_webkit :: engine_env where
  "no_webkit = \<lparr> launches = (\<lambda>k. k \<noteq> WebkitLike), well_formed = (\<lambda>s. True) \<rparr>"

text \<open>A suite whose test bodies return after 100 ms, under a timeout of 30 s.\<close>

definition title_suite :: "string runner_env" where
  "title_suite =
     \<lparr> engine = no_webkit, body = (\<lambda>t tg. Completes 100),
       seed_of = (\<lambda>t. None), timeoutMs = 30000 \<rparr>"

section \<open>Saving and loading the session state\<close>

lemma save_then_read:
  assumes "\<not> closed (page_context pg)"
    and "parse (stringify (state (page_context pg))) = Inr (state (page_context pg))"
  shows "fst (saveStorageState stringify pg p w) = Inr ()"
    and "readAuthData parse (snd (saveStorageState stringify pg p w)) p =
           Inr (state (page_context pg))"
  using assms
  by (simp_all add: saveStorageState_def storageState_def writeFile_def readAuthData_def
      readFileSync_def)



text \<open>The same for \<open>LoginPage.loginAndSaveState\<close>, once the login has gone through.\<close>

lemma loginAndSaveState_roundtrip:
  assumes "login d pg0 username password = Inr pg"
    and "\<not> closed (page_context pg)"
    and "parse (stringify (state (page_context pg))) = Inr (state (page_context pg))"
  shows "readAuthData parse
           (snd (loginAndSaveState stringify d pg0 username password p w)) p =
         Inr (state (page_context pg))"
  using assms by (simp add: loginAndSaveState_def save_then_read)

lemma loginAndSaveState_login_throws:
  "login d pg0 username password = Inl e \<Longrightarrow>
   loginAndSaveState stringify d pg0 username password p w = (Inl e, w)"
  by (simp add: loginAndSaveState_def)

section \<open>The global setup\<close>

lemma authFile_neq_authDir: "authFile \<noteq> authDir"
  by (simp add: authFile_def authDir_def)

lemma existsSync_mkdir: "existsSync (mkdirSync w authDir) authFile = existsSync w authFile"
  by (simp add: existsSync_def mkdirSync_def authFile_neq_authDir)

lemma mkdir_browsers: "browsers (mkdirSync w d) = browsers w"
  by (simp add: mkdirSync_def)

lemma globalSetup_exists:
  "existsSync w authFile \<Longrightarrow>
   globalSetup stringify r w =
     (Inr (), if existsSync w authDir then w else mkdirSync w authDir)"
  by (simp add: globalSetup_def Let_def existsSync_mkdir)

lemma globalSetup_absent:
  assumes "\<not> existsSync w authFile" and "succeeds r"
  shows "globalSetup stringify r w =
     (Inr (), writeFile (if existsSync w authDir then w else mkdirSync w authDir) authFile
                (stringify (state (logged_in r))))"
  using assms
  by (simp add: globalSetup_def Let_def existsSync_mkdir succeeds_def try_block_def
      finally_close_def storageState_def writeFile_def)

text \<open>
  Claim C2, as the code has it.  The decision to reuse the persisted state is made by
  \<open>fs.existsSync(authFile)\<close> alone: when the file exists, \<open>globalSetup\<close> returns
  without starting a browser and leaves the file as it is, whatever its age; only when the
  file is absent does it log in and capture the state.
\<close>

theorem globalSetup_decides_by_existence:
  "(existsSync w authFile \<longrightarrow>
      globalSetup stringify r w =
        (Inr (), if existsSync w authDir then w else mkdirSync w authDir)) \<and>
   (\<not> existsSync w authFile \<longrightarrow> succeeds r \<longrightarrow>
      globalSetup stringify r w =
        (Inr (), writeFile (if existsSync w authDir then w else mkdirSync w authDir) authFile
                   (stringify (state (logged_in r)))))"
  by (simp add: globalSetup_exists globalSetup_absent)

theorem globalSetup_decides_by_existence_witness:
  "existsSync old_auth_world authFile \<and>
   snd (globalSetup id smooth_run old_auth_world) = old_auth_world \<and>
   \<not> existsSync fresh_world authFile \<and> succeeds smooth_run \<and>
   files (snd (globalSetup id smooth_run fresh_world)) authFile =
     Some \<lparr>content = logged_in_state, mtime = 0\<rparr>"
  using globalSetup_decides_by_existence [of old_auth_world id smooth_run]
    globalSetup_decides_by_existence [of fresh_world id smooth_run]
  by (simp add: old_auth_world_def fresh_world_def smooth_run_def succeeds_def existsSync_def
      mkdirSync_def writeFile_def)

text \<open>
  A state that \<open>isStale\<close> calls stale for a maximal age of one hour is reused: the setup
  returns at once and the machine is as it was.
\<close>

theorem globalSetup_reuses_stale_state:
  "files old_auth_world authFile = Some \<lparr>content = no_cookies, mtime = 0\<rparr> \<and>
   isStale \<lparr>content = no_cookies, mtime = 0\<rparr> (now old_auth_world) 3600000 \<and>
   globalSetup id smooth_run old_auth_world = (Inr (), old_auth_world)"
  by (simp add: old_auth_world_def isStale_def globalSetup_def existsSync_def Let_def)

text \<open>
  Claim C3, as the code has it.  Loading an identifier that was never persisted throws
  \<open>ENOENT\<close>, and the exception leaves the test that loads the state: the code has no
  \<open>NotFound\<close> value and no fall-back to an unauthenticated context.
\<close>

theorem load_absent_throws:
  "(files w p = None \<longrightarrow> readAuthData parse w p = Inl ENOENT) \<and>
   (files w authFile = None \<longrightarrow> test_02 parse w = Inl ENOENT)"
  by (simp add: test_02_def readAuthData_def readFileSync_def)

theorem load_absent_throws_witness:
  "files old_auth_world ''auth/admin-auth.json'' = None \<and>
   readAuthData Inr old_auth_world ''auth/admin-auth.json'' = Inl ENOENT \<and>
   files fresh_world authFile = None \<and>
   test_02 Inr fresh_world = Inl ENOENT"
  using load_absent_throws [of old_auth_world "''auth/admin-auth.json''" Inr]
    load_absent_throws [of fresh_world authFile Inr]
  by (simp add: old_auth_world_def fresh_world_def authFile_def)

theorem load_never_persisted_counterexample:
  "files fresh_world authFile = None \<and>
   readAuthData Inr fresh_world authFile = Inl ENOENT \<and>
   test_02 Inr fresh_world = Inl ENOENT"
  by (simp add: fresh_world_def test_02_def readAuthData_def readFileSync_def)

text \<open>
  An exception inside the \<open>try\<close> block is followed by \<open>browser.close()\<close>: the number of
  running browsers is what it was.
\<close>

lemma globalSetup_try_failure_closes:
  assumes "\<not> existsSync w authFile" and "on_launch r = None"
    and "on_createContext r = None" and "on_newPage r = None" and "on_close r = None"
  shows "browsers (snd (globalSetup stringify r w)) = browsers w"
  using assms
  by (simp add: globalSetup_def Let_def existsSync_mkdir try_block_def finally_close_def
      storageState_def writeFile_def mkdir_browsers split: option.splits)

text \<open>
  An exception of \<open>browser.createContext()\<close> or \<open>context.newPage()\<close> is thrown before
  the \<open>try\<close> block is entered: the browser that was launched keeps running.
\<close>

lemma globalSetup_leaks_before_try:
  assumes "\<not> existsSync w authFile" and "on_launch r = None"
    and "on_createContext r = Some e \<or> (on_createContext r = None \<and> on_newPage r = Some e)"
  shows "fst (globalSetup stringify r w) = Inl e \<and>
         browsers (snd (globalSetup stringify r w)) = browsers w + 1"
  using assms
  by (auto simp add: globalSetup_def Let_def existsSync_mkdir mkdir_browsers)

text \<open>
  Claim C6.  A failed acquisition must leave no engine process behind.  In
  \<open>globalSetup\<close> it does: on a machine without browsers, when the browser starts and
  \<open>createContext\<close> throws, the exception reaches the caller and one browser is running.
\<close>

theorem globalSetup_leaks_browser:
  "globalSetup id createContext_throws fresh_world =
     (Inl (DriverError ''createContext''), fresh_world\<lparr>dirs := {authDir}, browsers := 1\<rparr>)"
  by (simp add: globalSetup_def fresh_world_def createContext_throws_def smooth_run_def
      existsSync_def mkdirSync_def Let_def authFile_neq_authDir)

section \<open>Reading the cart badge\<close>

lemma isRadixDigit_10: "isRadixDigit 10 c \<longleftrightarrow> 48 \<le> c \<and> c \<le> 57"
  by (auto simp: isRadixDigit_def digitVal_def split: option.splits)

lemma parseInt_10:
  "parseInt t 10 =
     parseDigits (signOf (trimStart (ToString t))) 10 (stripSign (trimStart (ToString t)))"
  by (simp add: parseInt_def Let_def)

lemma parseDigits_NaN: "parseDigits sg 10 s = NaN \<longleftrightarrow> \<not> beginsWithDigit s"
  by (cases s) (auto simp: parseDigits_def Let_def beginsWithDigit_def isRadixDigit_10)

lemma parseInt_null: "parseInt None 10 = NaN"
  by (simp add: parseInt_10 parseDigits_NaN ToString_def js_str_def trimStart_def
      isWhiteSpace_def stripSign_def beginsWithDigit_def)

lemma parseInt_empty: "parseInt (Some []) 10 = NaN"
  by (simp add: parseInt_10 parseDigits_NaN ToString_def trimStart_def stripSign_def
      beginsWithDigit_def)

text \<open>
  Claim C10, as the code has it.  When the driver returns the badge's text content,
  \<open>getCartItemCount\<close> does not throw and returns \<open>parseInt\<close> of it: \<open>NaN\<close> for an empty
  text and for \<open>null\<close>, and a number exactly when the text, after leading white space and
  an optional sign, begins with a decimal digit.
\<close>

theorem getCartItemCount_NaN:
  assumes "textContent pg cartBadge = Inr t"
  shows "getCartItemCount pg = Inr (parseInt t 10) \<and>
         (t = None \<or> t = Some [] \<longrightarrow> getCartItemCount pg = Inr NaN) \<and>
         (getCartItemCount pg = Inr NaN \<longleftrightarrow>
            \<not> beginsWithDigit (stripSign (trimStart (ToString t))))"
proof -
  have count: "getCartItemCount pg = Inr (parseInt t 10)"
    using assms by (simp add: getCartItemCount_def getText_def)
  have "t = None \<or> t = Some [] \<longrightarrow> parseInt t 10 = NaN"
    by (auto simp: parseInt_null parseInt_empty)
  moreover have "parseInt t 10 = NaN \<longleftrightarrow>
      \<not> beginsWithDigit (stripSign (trimStart (ToString t)))"
    by (simp add: parseInt_10 parseDigits_NaN)
  ultimately show ?thesis by (simp add: count)
qed

theorem getCartItemCount_NaN_witness:
  "getCartItemCount (page_with_badge None) = Inr NaN \<and>
   getCartItemCount (page_with_badge (Some [])) = Inr NaN \<and>
   getCartItemCount (page_with_badge (Some (js_str ''2''))) = Inr (Num 2)"
  using getCartItemCount_NaN [of "page_with_badge None" None]
    getCartItemCount_NaN [of "page_with_badge (Some [])" "Some []"]
    getCartItemCount_NaN [of "page_with_badge (Some (js_str ''2''))" "Some (js_str ''2'')"]
  by (simp add: page_with_badge_def parseInt_10 parseDigits_def ToString_def js_str_def
      trimStart_def isWhiteSpace_def signOf_def stripSign_def isRadixDigit_10 mathInt_def
      digitVal_def Let_def)

text \<open>
  A badge text with a leading space does not begin with a decimal digit, and the count is
  the number 3.
\<close>

theorem getCartItemCount_leading_space:
  "getCartItemCount (page_with_badge (Some (js_str '' 3''))) = Inr (Num 3) \<and>
   \<not> beginsWithDigit (js_str '' 3'')"
  by (simp add: getCartItemCount_def getText_def page_with_badge_def parseInt_10
      parseDigits_def ToString_def js_str_def trimStart_def isWhiteSpace_def signOf_def
      stripSign_def isRadixDigit_10 mathInt_def digitVal_def beginsWithDigit_def Let_def)

text \<open>When the driver throws, so does \<open>getCartItemCount\<close>.\<close>

lemma getCartItemCount_throws:
  "textContent pg cartBadge = Inl e \<Longrightarrow> getCartItemCount pg = Inl e"
  by (simp add: getCartItemCount_def getText_def)

section \<open>Waiting for the new page\<close>

text \<open>A click that is issued while no waiter is registered hands its page to nobody.\<close>

lemma click_without_waiter:
  "''page'' \<notin> set (waiters c) \<Longrightarrow> fst (snd (locator_first_click selector eff c)) = None"
  by (simp add: locator_first_click_def Let_def)

text \<open>
  Claim C9.  In \<open>clickNewWindowLink\<close> the waiter for the \<open>page\<close> event is registered
  before the click is issued, in every execution, and when the click goes through and
  opens pages, the result is the first of them.
\<close>

theorem clickNewWindowLink_listens_first:
  "issued (snd (clickNewWindowLink eff c)) =
     issued c @ [WaitForEvent ''page'', LocatorClick newWindowLink] \<and>
   (click_throws eff = None \<longrightarrow> opened eff = p # ps \<longrightarrow>
      fst (clickNewWindowLink eff c) = Inr p)"
  by (simp add: clickNewWindowLink_def locator_first_click_def waitForEvent_def Let_def)

theorem clickNewWindowLink_listens_first_witness:
  "click_throws opens_two = None \<and> opened opens_two = [''New Window'', ''Second''] \<and>
   clickNewWindowLink opens_two idle_context =
     (Inr ''New Window'',
      \<lparr>waiters = [], issued = [WaitForEvent ''page'', LocatorClick newWindowLink]\<rparr>)"
  using clickNewWindowLink_listens_first [of opens_two idle_context "''New Window''" "[''Second'']"]
  by (simp add: clickNewWindowLink_def locator_first_click_def waitForEvent_def opens_two_def
      idle_context_def Let_def)

section \<open>The orchestration layer: the matrix and the pool\<close>

text \<open>
  Claim C4.  For targets declared without repetition, \<open>expand\<close> yields as many runs as
  there are targets, each run is of the given test on one of the targets, the runs are in
  the declaration order of the targets, and no targets give no runs.
\<close>

theorem expand_in_declaration_order:
  "length (expand targets t) = length targets \<and>
   map snd (expand targets t) = targets \<and>
   (\<forall>x \<in> set (expand targets t). fst x = t \<and> snd x \<in> set targets) \<and>
   (distinct targets \<longrightarrow> length (expand targets t) = card (set targets)) \<and>
   expand [] t = []"
  by (auto simp: expand_def comp_def distinct_card)

lemma targets_differ: "webkit_target \<noteq> chromium_target"
  by (simp add: webkit_target_def chromium_target_def)

theorem expand_in_declaration_order_witness:
  "distinct [webkit_target, chromium_target] \<and>
   expand [webkit_target, chromium_target] ''title'' =
     [(''title'', webkit_target), (''title'', chromium_target)] \<and>
   length (expand [webkit_target, chromium_target] ''title'') =
     card (set [webkit_target, chromium_target])"
  using expand_in_declaration_order [of "[webkit_target, chromium_target]" "''title''"]
  by (simp add: expand_def targets_differ)

lemma release_closed:
  assumes "\<not> is_open c p"
  shows "release c p = p"
proof -
  have "map_of (open_contexts p) c = None"
    using assms by (simp add: is_open_def map_of_eq_None_iff)
  then show ?thesis by (simp add: release_def)
qed

lemma release_closes: "\<not> is_open c (release c p)"
proof (cases "map_of (open_contexts p) c")
  case None
  then have "c \<notin> fst ` set (open_contexts p)"
    by (simp add: map_of_eq_None_iff)
  with None show ?thesis by (simp add: release_def is_open_def)
next
  case (Some k)
  then show ?thesis by (auto simp: release_def is_open_def Let_def)
qed

lemma acquire_opens: "acquire env tg seed p = (Inr c, p') \<Longrightarrow> is_open c p'"
  by (auto simp: acquire_def Let_def is_open_def split: if_splits option.splits)

text \<open>
  Claim C7.  \<open>release\<close> is idempotent: a context that \<open>acquire\<close> returned is open, one
  \<open>release\<close> closes it, and a second \<open>release\<close> of the same context changes nothing.
\<close>

theorem release_idempotent:
  "release c (release c p) = release c p \<and>
   \<not> is_open c (release c p) \<and>
   (acquire env tg seed p = (Inr c, p') \<longrightarrow>
      is_open c p' \<and> \<not> is_open c (release c p') \<and>
      release c (release c p') = release c p')"
  by (simp add: release_closed release_closes acquire_opens)

theorem release_idempotent_witness:
  "acquire no_webkit chromium_target None empty_pool =
     (Inr 0, \<lparr>engines = {ChromiumLike}, open_contexts = [(0, ChromiumLike)], next_context = 1,
              keep_warm = False\<rparr>) \<and>
   release 0 (snd (acquire no_webkit chromium_target None empty_pool)) =
     empty_pool\<lparr>next_context := 1\<rparr> \<and>
   release 0 (release 0 (snd (acquire no_webkit chromium_target None empty_pool))) =
     empty_pool\<lparr>next_context := 1\<rparr>"
  using release_idempotent [of 0 "snd (acquire no_webkit chromium_target None empty_pool)"
      no_webkit chromium_target None empty_pool]
  by (simp add: acquire_def release_def is_open_def no_webkit_def empty_pool_def
      chromium_target_def Let_def)

section \<open>The orchestration layer: the runner\<close>

lemma run_all_append:
  "run_all env ss p report =
     (report @ fst (run_all env ss p []), snd (run_all env ss p []))"
proof (induction ss arbitrary: p report)
  case Nil
  show ?case by simp
next
  case (Cons s ss)
  obtain r p' where step: "run_scheduled env s p = (r, p')"
    by (cases "run_scheduled env s p")
  have "run_all env (s # ss) p report = run_all env ss p' (report @ [r])"
    by (simp add: step)
  also have "\<dots> = ((report @ [r]) @ fst (run_all env ss p' []), snd (run_all env ss p' []))"
    by (rule Cons.IH)
  also have "\<dots> = (report @ fst (run_all env ss p' [r]), snd (run_all env ss p' [r]))"
    by (simp add: Cons.IH [of p' "[r]"])
  finally show ?case by (simp add: step)
qed

lemma unit_of_run_scheduled: "unit_of (fst (run_scheduled env s p)) = s"
  by (cases s) (auto simp: run_scheduled_def unit_of_def split: prod.splits sum.splits)

lemma run_all_units: "map unit_of (fst (run_all env ss p [])) = ss"
proof (induction ss arbitrary: p)
  case Nil
  show ?case by simp
next
  case (Cons s ss)
  obtain r p' where step: "run_scheduled env s p = (r, p')"
    by (cases "run_scheduled env s p")
  have "unit_of r = s"
    using unit_of_run_scheduled [of env s p] by (simp add: step)
  moreover have "fst (run_all env (s # ss) p []) = r # fst (run_all env ss p' [])"
    using run_all_append [of env ss p' "[r]"] by (simp add: step)
  ultimately show ?case by (simp add: Cons.IH)
qed

lemma run_all_results:
  "r \<in> set (fst (run_all env ss p [])) \<Longrightarrow>
   \<exists>s p'. s \<in> set ss \<and> r = fst (run_scheduled env s p')"
proof (induction ss arbitrary: p)
  case Nil
  then show ?case by simp
next
  case (Cons s ss)
  obtain r0 p' where step: "run_scheduled env s p = (r0, p')"
    by (cases "run_scheduled env s p")
  have "fst (run_all env (s # ss) p []) = r0 # fst (run_all env ss p' [])"
    using run_all_append [of env ss p' "[r0]"] by (simp add: step)
  with Cons.prems have "r = r0 \<or> r \<in> set (fst (run_all env ss p' []))" by auto
  then show ?case
  proof
    assume "r = r0"
    then have "r = fst (run_scheduled env s p)" by (simp add: step)
    then show ?thesis by auto
  next
    assume "r \<in> set (fst (run_all env ss p' []))"
    from Cons.IH [OF this] show ?thesis by auto
  qed
qed

lemma run_suite_units:
  "map unit_of (fst (run_suite env targets tests cancel p)) =
     (case cancel of
        None \<Rightarrow> schedule targets tests
      | Some n \<Rightarrow> take n (schedule targets tests))"
  by (simp add: run_suite_def run_all_units)







lemma schedule_Cons:
  "schedule targets (t # ts) = schedule_test targets t @ schedule targets ts"
  by (simp add: schedule_def)

lemma schedule_test_eq:
  "schedule_test targets t = (if targets = [] then [Skip t] else map (Run t) targets)"
  by (cases targets) (simp_all add: schedule_test_def expand_def)

lemma schedule_test_tests: "u \<in> set (schedule_test targets t) \<Longrightarrow> unit_test u = t"
  by (auto simp: schedule_test_eq split: if_splits)

lemma schedule_tests: "u \<in> set (schedule targets ts) \<Longrightarrow> unit_test u \<in> set ts"
  by (induction ts) (auto simp: schedule_Cons dest: schedule_test_tests simp: schedule_def)

lemma distinct_schedule_test: "distinct targets \<Longrightarrow> distinct (schedule_test targets t)"
  by (simp add: schedule_test_eq distinct_map inj_on_def)

lemma distinct_schedule:
  "distinct targets \<Longrightarrow> distinct ts \<Longrightarrow> distinct (schedule targets ts)"
proof (induction ts)
  case Nil
  show ?case by (simp add: schedule_def)
next
  case (Cons t ts)
  have "set (schedule_test targets t) \<inter> set (schedule targets ts) = {}"
    using Cons.prems(2) by (auto dest: schedule_test_tests schedule_tests)
  with Cons show ?case
    by (simp add: schedule_Cons distinct_schedule_test)
qed

lemma count_distinct:
  "distinct ys \<Longrightarrow> u \<in> set ys \<Longrightarrow> length (filter (\<lambda>y. y = u) ys) = 1"
  by (induction ys) (auto simp: filter_empty_conv)

lemma length_filter_unit:
  "length (filter (\<lambda>r. unit_of r = u) rs) = length (filter (\<lambda>y. y = u) (map unit_of rs))"
  by (induction rs) auto

lemma unit_of_Run: "unit_of r = Run t tg \<longleftrightarrow> test r = t \<and> target r = Some tg"
  by (auto simp: unit_of_def split: option.splits)

lemma unit_of_Skip: "unit_of r = Skip t \<longleftrightarrow> test r = t \<and> target r = None"
  by (auto simp: unit_of_def split: option.splits)

lemma Run_in_schedule:
  "t \<in> set ts \<Longrightarrow> tg \<in> set targets \<Longrightarrow> Run t tg \<in> set (schedule targets ts)"
  by (induction ts) (auto simp: schedule_Cons schedule_test_eq simp: schedule_def)

lemma Skip_in_schedule: "t \<in> set ts \<Longrightarrow> Skip t \<in> set (schedule [] ts)"
  by (induction ts) (auto simp: schedule_Cons schedule_test_eq simp: schedule_def)

lemma exactly_one:
  assumes "distinct targets" and "distinct tests" and "u \<in> set (schedule targets tests)"
  shows "length (filter (\<lambda>r. unit_of r = u) (fst (run_suite env targets tests None p))) = 1"
  using assms
  by (simp add: length_filter_unit run_suite_units count_distinct distinct_schedule)

lemma skipped_result:
  assumes "unit_of r = Skip t" and "r \<in> set (fst (run_all env ss p []))"
  shows "outcome r = skipped"
proof -
  obtain s p' where r: "r = fst (run_scheduled env s p')"
    using assms(2) run_all_results by blast
  with assms(1) have "s = Skip t" by (simp add: unit_of_run_scheduled)
  with r show ?thesis by (simp add: run_scheduled_def)
qed

lemma one_per_pair:
  assumes "distinct targets" and "distinct tests" and "t \<in> set tests" and "tg \<in> set targets"
  shows "length (filter (\<lambda>r. test r = t \<and> target r = Some tg)
           (fst (run_suite env targets tests None p))) = 1"
  using exactly_one [OF assms(1,2) Run_in_schedule [OF assms(3,4)], of env p]
  by (simp add: unit_of_Run)

lemma skip_only:
  assumes "distinct tests" and "t \<in> set tests"
  shows "\<exists>r. filter (\<lambda>r. test r = t) (fst (run_suite env [] tests None p)) = [r] \<and>
             outcome r = skipped"
proof -
  let ?rep = "fst (run_suite env [] tests None p)"
  have units: "map unit_of ?rep = schedule [] tests"
    by (simp add: run_suite_units)
  have all_skip: "target r = None" if "r \<in> set ?rep" for r
  proof -
    from that have "unit_of r \<in> set (schedule [] tests)"
      using units by (metis image_eqI set_map)
    then obtain t' where "unit_of r = Skip t'"
      by (auto simp: schedule_def schedule_test_eq)
    then show ?thesis by (simp add: unit_of_Skip)
  qed
  have "filter (\<lambda>r. test r = t) ?rep = filter (\<lambda>r. unit_of r = Skip t) ?rep"
    by (rule filter_cong) (auto simp: unit_of_Skip all_skip)
  moreover have "length (filter (\<lambda>r. unit_of r = Skip t) ?rep) = 1"
    using assms by (simp add: exactly_one Skip_in_schedule)
  ultimately have "length (filter (\<lambda>r. test r = t) ?rep) = Suc 0"
    by simp
  then obtain r where r: "filter (\<lambda>r. test r = t) ?rep = [r]"
    by (auto simp: length_Suc_conv)
  then have "r \<in> set (filter (\<lambda>r. test r = t) ?rep)" by simp
  then have in_rep: "r \<in> set ?rep" and "test r = t" by auto
  then have "unit_of r = Skip t" by (simp add: unit_of_Skip all_skip)
  with in_rep have "outcome r = skipped"
    unfolding run_suite_def by (simp add: skipped_result)
  with r show ?thesis by blast
qed

text \<open>
  Claim C8.  The results of a final report are, in order, the units of work that were
  completed: all of them when the suite ran to its end, and those before the cancellation
  when it was cancelled.  For a suite that ran to its end, with targets and tests declared
  without repetition, the report holds exactly one result for every pair of a test and a
  target, and when there are no targets, exactly one result for every test, with the
  outcome \<open>skipped\<close>.
\<close>

theorem run_suite_report_complete:
  "map unit_of (fst (run_suite env targets tests cancel p)) =
     (case cancel of
        None \<Rightarrow> schedule targets tests
      | Some n \<Rightarrow> take n (schedule targets tests)) \<and>
   (distinct targets \<longrightarrow> distinct tests \<longrightarrow>
      (\<forall>t \<in> set tests. \<forall>tg \<in> set targets.
         length (filter (\<lambda>r. test r = t \<and> target r = Some tg)
           (fst (run_suite env targets tests None p))) = 1)) \<and>
   (distinct tests \<longrightarrow>
      (\<forall>t \<in> set tests.
         \<exists>r. filter (\<lambda>r. test r = t) (fst (run_suite env [] tests None p)) = [r] \<and>
             outcome r = skipped))"
  using run_suite_units [of env targets tests cancel p]
  by (simp add: one_per_pair skip_only)

theorem run_suite_report_complete_witness:
  "distinct [webkit_target, chromium_target] \<and> distinct [''a'', ''b''] \<and>
   map unit_of
     (fst (run_suite title_suite [webkit_target, chromium_target] [''a'', ''b''] (Some 3)
        empty_pool)) =
     [Run ''a'' webkit_target, Run ''a'' chromium_target, Run ''b'' webkit_target] \<and>
   length (filter (\<lambda>r. test r = ''b'' \<and> target r = Some chromium_target)
     (fst (run_suite title_suite [webkit_target, chromium_target] [''a'', ''b''] None
        empty_pool))) = 1 \<and>
   map outcome (fst (run_suite title_suite [] [''a'', ''b''] None empty_pool)) =
     [skipped, skipped]"
  using run_suite_report_complete [of title_suite "[webkit_target, chromium_target]"
      "[''a'', ''b'']" "Some 3" empty_pool]
  by (simp add: run_suite_def schedule_def schedule_test_def expand_def run_scheduled_def
      acquire_def execute_def release_def title_suite_def no_webkit_def empty_pool_def
      webkit_target_def chromium_target_def Let_def unit_of_def)

end
